theory Spec2Isabelle
  imports Main
begin

section \<open>Action tokens: the cached record and its validity check\<close>

text \<open>
  The enums of the remote API that the broker reads. Only \<open>Approved\<close> is compared
  against; \<open>InsertPlugs\<close> is the one action type the plug workflow asks for.
\<close>

datatype AwaUserSelection = SelectionNone | Rejected | Approved

datatype AwaType = AwaNone | DismantleGroupA | InsertPlugs

text \<open>
  The request of the remote plug insertion, as the workflow builds it.
\<close>

datatype DestinySocketArrayType = Default | Intrinsic

record DestinyInsertPlugsRequestEntry =
  socketIndex :: int
  socketArrayType :: DestinySocketArrayType
  plugItemHash :: int

record InsertPlugRequest =
  actionToken :: string
  itemInstanceId :: string
  plug :: DestinyInsertPlugsRequestEntry
  characterId :: string
  membershipType :: int

text \<open>
  The parts of the application's own types that the code reads: the item's id and
  owner, the socket's index, the store's id and the account's platform type.
\<close>

record DimItem =
  id :: string
  owner :: string

record DimSocket =
  socketIndex :: int

record DimStore =
  id :: string

record DestinyAccount =
  originalPlatformType :: int

text \<open>
  The authorization result of the remote service, with the fields the broker reads,
  and the cached form \<^verbatim>\<open>AwaAuthorizationResult & { used: number }\<close>. \<open>validUntil\<close> is
  an optional date string; the two counts are JavaScript numbers holding integers.
\<close>

record AwaAuthorizationResult =
  userSelection :: AwaUserSelection
  developerNote :: string
  actionToken :: string
  maximumNumberOfUses :: int
  validUntil :: "string option"

record CachedToken = AwaAuthorizationResult +
  used :: int

text \<open>
  What the cache holds under an action. The spread \<^verbatim>\<open>{ ...response, used: 0 }\<close> of a
  response gives a record with all its fields; when the request resolves without a
  response, the same spread gives the object \<^verbatim>\<open>{ used: 0 }\<close>, on which every other
  field reads as undefined.
\<close>

datatype CacheEntry = Token CachedToken | UsedOnly int

text \<open>
  \<^verbatim>\<open>!info.validUntil\<close>: an optional string is falsy when it is undefined or empty.
\<close>

definition falsyString :: "string option \<Rightarrow> bool" where
  "falsyString s = (case s of None \<Rightarrow> True | Some v \<Rightarrow> v = [])"

text \<open>
  \<^verbatim>\<open>new Date(s) > new Date()\<close>: both sides are read as time values (milliseconds).
  The parser of date strings belongs to the platform and is a parameter; it gives
  \<open>None\<close> for an invalid date, whose time value is NaN and compares false.
\<close>

definition dateAfter :: "(string \<Rightarrow> int option) \<Rightarrow> string \<Rightarrow> int \<Rightarrow> bool" where
  "dateAfter parseDate s now = (case parseDate s of None \<Rightarrow> False | Some t \<Rightarrow> now < t)"

definition tokenValid :: "(string \<Rightarrow> int option) \<Rightarrow> int \<Rightarrow> CachedToken \<Rightarrow> bool" where
  "tokenValid parseDate now info =
     ((falsyString (validUntil info)
         \<or> (case validUntil info of None \<Rightarrow> False | Some s \<Rightarrow> dateAfter parseDate s now))
      \<and> (maximumNumberOfUses info = 0 \<or> used info \<le> maximumNumberOfUses info)
      \<and> userSelection info = Approved)"

section \<open>The broker and its collaborators\<close>

text \<open>
  Modelled from the spec: the class \<^verbatim>\<open>DimError\<close> (app/utils/dim-error) is not among the
  sources. It is the single domain error that carries a message key and either the
  underlying error or a developer note: here its code, its optional second constructor
  argument and the cause attached by \<^verbatim>\<open>withError\<close>. Anything else that is thrown is an
  error raised by a collaborator (a remote call), known by its message.
\<close>

datatype thrown =
    Thrown string
  | DimError string "string option" "thrown option"

text \<open>
  \<^verbatim>\<open>e.message\<close>. The class \<^verbatim>\<open>DimError\<close> is defined elsewhere; the message it computes
  from its constructor arguments is the parameter \<open>dimMessage\<close>.
\<close>

fun message :: "(string \<Rightarrow> string option \<Rightarrow> string) \<Rightarrow> thrown \<Rightarrow> string" where
  "message dimMessage (Thrown m) = m"
| "message dimMessage (DimError c note cause) = dimMessage c note"

datatype NotificationType = Info | Error

record NotifyInput =
  type :: NotificationType
  title :: string
  body :: string

record 'i DestinyItemChangeResponse =
  item :: 'i

record 'r ServerResponse =
  Response :: 'r

record ('c, 'd, 'b) AwaItemChanged =
  changes :: 'c
  defs :: 'd
  buckets :: 'b

text \<open>
  Modelled from the spec: the notification surface, the error log, the dispatcher, the
  remote API client and the durable key-value store are not among the sources; each is
  a fire-and-forget or request-and-answer collaborator and is kept as a trace of calls.
  The record holds everything the three operations read and write outside their arguments:
  the module variable \<open>awaCache\<close> (\<open>None\<close> while it is still undefined), the value
  kept under the key \<^verbatim>\<open>awa-tokens\<close> in the durable key-value store (\<open>None\<close> when nothing
  is stored), and the traces of the effects in the order they happen: notifications
  shown, token requests and plug insertions sent, error log lines, actions dispatched.
  Reading and writing the durable store always complete.
\<close>

type_synonym AwaCache = "AwaType \<rightharpoonup> CacheEntry"

record 'a world =
  awaCache :: "AwaCache option"
  idbAwaTokens :: "AwaCache option"
  notifications :: "NotifyInput list"
  tokenRequests :: "(DestinyAccount \<times> AwaType \<times> string \<times> DimItem option) list"
  plugRequests :: "InsertPlugRequest list"
  errorLogs :: "(string \<times> string \<times> DimItem \<times> thrown) list"
  dispatched :: "'a list"

text \<open>
  The collaborators, each with the outcome it gives: the date parser and the clock
  (read once when a cached record is checked and once when a fresh one is), the
  translation function \<^verbatim>\<open>t\<close>, the remote calls (\<open>Inl\<close> when the promise rejects) and
  the selectors of the application state, whose results the code asserts to be present.
  A token request that resolves may still carry no response (\<open>Inr None\<close>): the code
  tests the record it builds from the answer for that case.
\<close>

record ('i, 'z, 'd, 'b) env =
  parseDate :: "string \<Rightarrow> int option"
  nowAtLookup :: int
  nowAfterRequest :: int
  t_i18n :: "string \<Rightarrow> string"
  dimErrorMessage :: "string \<Rightarrow> string option \<Rightarrow> string"
  requestAdvancedWriteActionToken ::
    "DestinyAccount \<Rightarrow> AwaType \<Rightarrow> string \<Rightarrow> DimItem option
       \<Rightarrow> thrown + AwaAuthorizationResult option"
  insertSocketPlug ::
    "InsertPlugRequest \<Rightarrow> thrown + ('i, 'z) DestinyItemChangeResponse_scheme ServerResponse"
  getSingleItem :: "string \<Rightarrow> DestinyAccount \<Rightarrow> thrown + 'i"
  currentAccountSelector :: DestinyAccount
  currentStoreSelector :: DimStore
  d2ManifestSelector :: 'd
  bucketsSelector :: 'b

text \<open>The spread \<^verbatim>\<open>{ ...result, used: n }\<close> of a response.\<close>

definition withUsed :: "AwaAuthorizationResult \<Rightarrow> int \<Rightarrow> CachedToken" where
  "withUsed r n =
     \<lparr> userSelection = userSelection r, developerNote = developerNote r,
       actionToken = AwaAuthorizationResult.actionToken r,
       maximumNumberOfUses = maximumNumberOfUses r, validUntil = validUntil r, used = n \<rparr>"

text \<open>
  The same spread on what the request resolved with: spreading \<^verbatim>\<open>undefined\<close> adds no
  field, so a missing response leaves the object with \<open>used\<close> alone.
\<close>

definition spreadUsed :: "AwaAuthorizationResult option \<Rightarrow> int \<Rightarrow> CacheEntry" where
  "spreadUsed response n =
     (case response of None \<Rightarrow> UsedOnly n | Some r \<Rightarrow> Token (withUsed r n))"

text \<open>
  The test \<^verbatim>\<open>!info || !tokenValid(info)\<close>, on a lookup that may find nothing. On the
  object \<^verbatim>\<open>{ used: n }\<close> the validity check is false: \<^verbatim>\<open>maximumNumberOfUses\<close> is
  undefined there, so \<^verbatim>\<open>=== 0\<close> is false and \<^verbatim>\<open>n <= undefined\<close> is false.
\<close>

definition tokenUnusable :: "(string \<Rightarrow> int option) \<Rightarrow> int \<Rightarrow> CacheEntry option \<Rightarrow> bool" where
  "tokenUnusable parse now info =
     (case info of
        None \<Rightarrow> True
      | Some (UsedOnly n) \<Rightarrow> True
      | Some (Token i) \<Rightarrow> \<not> tokenValid parse now i)"

text \<open>
  The second argument of the error: \<^verbatim>\<open>info ? info.developerNote : 'no response'\<close>.
  Every object is truthy; the developer note of \<^verbatim>\<open>{ used: n }\<close> is undefined (\<open>None\<close>).
\<close>

definition failedTokenNote :: "CacheEntry option \<Rightarrow> string option" where
  "failedTokenNote info =
     (case info of
        None \<Rightarrow> Some ''no response''
      | Some (UsedOnly n) \<Rightarrow> None
      | Some (Token i) \<Rightarrow> Some (developerNote i))"

text \<open>
  The end of \<^verbatim>\<open>getAwaToken\<close>: \<^verbatim>\<open>info.used++\<close> changes the record that the cache holds
  under the action, the whole cache is written to the durable store, and the token
  string is returned.
\<close>

definition useToken ::
  "AwaType \<Rightarrow> CachedToken \<Rightarrow> AwaCache \<Rightarrow> 'a world \<Rightarrow> (thrown + string) \<times> 'a world" where
  "useToken action info cache w =
     (let info' = info\<lparr>used := used info + 1\<rparr>;
          cache' = cache(action \<mapsto> Token info')
      in (Inr (AwaAuthorizationResult.actionToken info'),
          w\<lparr>awaCache := Some cache', idbAwaTokens := Some cache'\<rparr>))"

text \<open>
  The branch that asks for a fresh token: the notification, the remote request, the
  new record stored in the cache with \<open>used\<close> 0, and the second test
  \<^verbatim>\<open>!info || !tokenValid(info)\<close>, which the object built from a missing response fails
  on its validity.
\<close>

definition requestNewToken ::
  "('i, 'z, 'd, 'b) env \<Rightarrow> DestinyAccount \<Rightarrow> AwaType \<Rightarrow> string \<Rightarrow> DimItem option
     \<Rightarrow> AwaCache \<Rightarrow> 'a world \<Rightarrow> (thrown + string) \<times> 'a world" where
  "requestNewToken e account action storeId itm cache w =
     (let w1 = w\<lparr>notifications := notifications w @
                   [\<lparr> type = Info, title = t_i18n e ''AWA.ConfirmTitle'',
                      body = t_i18n e ''AWA.ConfirmDescription'' \<rparr>]\<rparr>;
          w2 = w1\<lparr>tokenRequests := tokenRequests w1 @ [(account, action, storeId, itm)]\<rparr>
      in case requestAdvancedWriteActionToken e account action storeId itm of
           Inl err \<Rightarrow> (Inl (DimError ''AWA.FailedToken'' None (Some err)), w2)
         | Inr response \<Rightarrow>
             (let info = spreadUsed response 0;
                  cache' = cache(action \<mapsto> info);
                  w3 = w2\<lparr>awaCache := Some cache'\<rparr>
              in case info of
                   UsedOnly n \<Rightarrow>
                     (Inl (DimError ''AWA.FailedToken'' (failedTokenNote (Some info)) None), w3)
                 | Token i \<Rightarrow>
                     if \<not> tokenValid (parseDate e) (nowAfterRequest e) i
                     then (Inl (DimError ''AWA.FailedToken'' (failedTokenNote (Some info)) None), w3)
                     else useToken action i cache' w3))"

text \<open>The cache object after the lazy load: \<^verbatim>\<open>awaCache = (await get('awa-tokens')) || {}\<close>.\<close>

definition loadedCache :: "'a world \<Rightarrow> AwaCache" where
  "loadedCache w =
     (case awaCache w of
        Some c \<Rightarrow> c
      | None \<Rightarrow> (case idbAwaTokens w of None \<Rightarrow> Map.empty | Some c \<Rightarrow> c))"

definition getAwaToken ::
  "('i, 'z, 'd, 'b) env \<Rightarrow> DestinyAccount \<Rightarrow> AwaType \<Rightarrow> string \<Rightarrow> DimItem option
     \<Rightarrow> 'a world \<Rightarrow> (thrown + string) \<times> 'a world" where
  "getAwaToken e account action storeId itm w =
     (let cache = loadedCache w;
          w0 = w\<lparr>awaCache := Some cache\<rparr>
      in case cache action of
           None \<Rightarrow> requestNewToken e account action storeId itm cache w0
         | Some (UsedOnly n) \<Rightarrow> requestNewToken e account action storeId itm cache w0
         | Some (Token info) \<Rightarrow>
             if \<not> tokenValid (parseDate e) (nowAtLookup e) info
             then requestNewToken e account action storeId itm cache w0
             else useToken action info cache w0)"

section \<open>The plug insertion workflow\<close>

text \<open>
  \<^verbatim>\<open>refreshItemAfterAWA\<close>: the item is fetched again; a failed fetch is logged and the
  response of the mutation is used as it is. The action is dispatched in both cases.
\<close>

definition refreshItemAfterAWA ::
  "('i, 'z, 'd, 'b) env \<Rightarrow> DimItem \<Rightarrow> ('i, 'z) DestinyItemChangeResponse_scheme
     \<Rightarrow> (('i, 'z) DestinyItemChangeResponse_scheme, 'd, 'b) AwaItemChanged world
     \<Rightarrow> (thrown + unit) \<times> (('i, 'z) DestinyItemChangeResponse_scheme, 'd, 'b) AwaItemChanged world" where
  "refreshItemAfterAWA e itm chg w =
     (let account = currentAccountSelector e;
          (chg', w1) =
            (case getSingleItem e (DimItem.id itm) account of
               Inr itemInfo \<Rightarrow> (chg\<lparr>item := itemInfo\<rparr>, w)
             | Inl err \<Rightarrow>
                 (chg, w\<lparr>errorLogs := errorLogs w @
                    [(''AWA'', ''Unable to refresh item, falling back on AWA response'', itm, err)]\<rparr>))
      in (Inr (),
          w1\<lparr>dispatched := dispatched w1 @
                [\<lparr> changes = chg', defs = d2ManifestSelector e, buckets = bucketsSelector e \<rparr>]\<rparr>))"

text \<open>The body of the \<^verbatim>\<open>try\<close> block of \<^verbatim>\<open>insertPlug\<close>; \<open>Inl\<close> is what it throws.\<close>

definition insertPlugTry ::
  "('i, 'z, 'd, 'b) env \<Rightarrow> DimItem \<Rightarrow> DimSocket \<Rightarrow> int \<Rightarrow> DestinyAccount \<Rightarrow> string
     \<Rightarrow> (('i, 'z) DestinyItemChangeResponse_scheme, 'd, 'b) AwaItemChanged world
     \<Rightarrow> (thrown + unit) \<times> (('i, 'z) DestinyItemChangeResponse_scheme, 'd, 'b) AwaItemChanged world" where
  "insertPlugTry e itm socket plugHash account storeId w =
     (case getAwaToken e account InsertPlugs storeId (Some itm) w of
        (Inl err, w1) \<Rightarrow> (Inl err, w1)
      | (Inr token, w1) \<Rightarrow>
          (let req = \<lparr> InsertPlugRequest.actionToken = token,
                       itemInstanceId = DimItem.id itm,
                       plug = \<lparr> DestinyInsertPlugsRequestEntry.socketIndex = DimSocket.socketIndex socket,
                                socketArrayType = Default,
                                plugItemHash = plugHash \<rparr>,
                       characterId = storeId,
                       membershipType = originalPlatformType account \<rparr>;
               w2 = w1\<lparr>plugRequests := plugRequests w1 @ [req]\<rparr>
           in case insertSocketPlug e req of
                Inl err \<Rightarrow> (Inl err, w2)
              | Inr response \<Rightarrow> refreshItemAfterAWA e itm (Response response) w2))"

text \<open>
  \<^verbatim>\<open>insertPlug\<close>: the character id, the \<^verbatim>\<open>try\<close> block, and the \<^verbatim>\<open>catch\<close> clause, which
  logs what was thrown and shows it in an error notification.
\<close>

definition insertPlug ::
  "('i, 'z, 'd, 'b) env \<Rightarrow> DimItem \<Rightarrow> DimSocket \<Rightarrow> int
     \<Rightarrow> (('i, 'z) DestinyItemChangeResponse_scheme, 'd, 'b) AwaItemChanged world
     \<Rightarrow> (thrown + unit) \<times> (('i, 'z) DestinyItemChangeResponse_scheme, 'd, 'b) AwaItemChanged world" where
  "insertPlug e itm socket plugHash w =
     (let account = currentAccountSelector e;
          storeId = (if owner itm = ''vault'' then DimStore.id (currentStoreSelector e)
                     else owner itm)
      in case insertPlugTry e itm socket plugHash account storeId w of
           (Inl err, w1) \<Rightarrow>
             (Inr (),
              w1\<lparr>errorLogs := errorLogs w1 @ [(''AWA'', ''Couldn't insert plug'', itm, err)],
                 notifications := notifications w1 @
                   [\<lparr> type = Error, title = t_i18n e ''AWA.Error'',
                      body = message (dimErrorMessage e) err \<rparr>]\<rparr>)
         | (Inr u, w1) \<Rightarrow> (Inr u, w1))"

section \<open>Loadouts: the persisted form and the in-memory form\<close>

record DimApiLoadoutItem =
  id :: "string option"
  hash :: int
  amount :: "int option"

record LoadoutItem =
  id :: string
  hash :: int
  amount :: int
  equipped :: bool

record 'p DimApiLoadout =
  id :: string
  classType :: int
  name :: string
  clearSpace :: "bool option"
  equipped :: "DimApiLoadoutItem list"
  unequipped :: "DimApiLoadoutItem list"
  parameters :: "'p option"

record 'p Loadout =
  id :: string
  classType :: int
  name :: string
  clearSpace :: bool
  items :: "LoadoutItem list"
  parameters :: "'p option"

text \<open>\<^verbatim>\<open>item.id || '0'\<close> and \<^verbatim>\<open>item.amount || 1\<close>: the default replaces every falsy value.\<close>

definition convertDimApiLoadoutItemToLoadoutItem :: "DimApiLoadoutItem \<Rightarrow> bool \<Rightarrow> LoadoutItem" where
  "convertDimApiLoadoutItemToLoadoutItem itm eq =
     \<lparr> LoadoutItem.id = (case DimApiLoadoutItem.id itm of
                            None \<Rightarrow> ''0''
                          | Some s \<Rightarrow> if s = [] then ''0'' else s),
       LoadoutItem.hash = DimApiLoadoutItem.hash itm,
       LoadoutItem.amount = (case DimApiLoadoutItem.amount itm of
                               None \<Rightarrow> 1
                             | Some a \<Rightarrow> if a = 0 then 1 else a),
       LoadoutItem.equipped = eq \<rparr>"

definition convertDimApiLoadoutToLoadout :: "'p DimApiLoadout \<Rightarrow> 'p Loadout" where
  "convertDimApiLoadoutToLoadout loadout =
     \<lparr> Loadout.id = DimApiLoadout.id loadout,
       Loadout.classType = DimApiLoadout.classType loadout,
       Loadout.name = DimApiLoadout.name loadout,
       Loadout.clearSpace = (case DimApiLoadout.clearSpace loadout of None \<Rightarrow> False | Some b \<Rightarrow> b),
       Loadout.items =
         map (\<lambda>i. convertDimApiLoadoutItemToLoadoutItem i True) (DimApiLoadout.equipped loadout)
         @ map (\<lambda>i. convertDimApiLoadoutItemToLoadoutItem i False) (DimApiLoadout.unequipped loadout),
       Loadout.parameters = DimApiLoadout.parameters loadout \<rparr>"

section \<open>Sample inputs\<close>

text \<open>
  Concrete collaborators and states on which the operations are run: a remote service
  that answers every token request, plug insertion and item fetch with a fixed outcome,
  a state in which nothing has happened yet, and one whose cache holds a record for
  the insert-plug action.
\<close>

definition sampleResult :: "AwaUserSelection \<Rightarrow> int \<Rightarrow> AwaAuthorizationResult" where
  "sampleResult sel quota =
     \<lparr> userSelection = sel, developerNote = ''note'', AwaAuthorizationResult.actionToken = ''tok'',
       maximumNumberOfUses = quota, validUntil = None \<rparr>"

definition sampleEnv ::
  "(thrown + AwaAuthorizationResult option)
     \<Rightarrow> (thrown + (nat, unit) DestinyItemChangeResponse_scheme ServerResponse)
     \<Rightarrow> (thrown + nat) \<Rightarrow> (nat, unit, unit, unit) env" where
  "sampleEnv tokenOutcome plugOutcome itemOutcome =
     \<lparr> parseDate = (\<lambda>s. None), nowAtLookup = 1000, nowAfterRequest = 1001,
       t_i18n = (\<lambda>k. k),
       dimErrorMessage = (\<lambda>c note. case note of None \<Rightarrow> c | Some m \<Rightarrow> m),
       requestAdvancedWriteActionToken = (\<lambda>account action storeId itm. tokenOutcome),
       insertSocketPlug = (\<lambda>req. plugOutcome),
       getSingleItem = (\<lambda>i account. itemOutcome),
       currentAccountSelector = \<lparr> originalPlatformType = 3 \<rparr>,
       currentStoreSelector = \<lparr> DimStore.id = ''char1'' \<rparr>,
       d2ManifestSelector = (), bucketsSelector = () \<rparr>"

definition freshWorld :: "'a world" where
  "freshWorld = \<lparr> awaCache = None, idbAwaTokens = None, notifications = [], tokenRequests = [],
                  plugRequests = [], errorLogs = [], dispatched = [] \<rparr>"

definition cachedWorld :: "CachedToken \<Rightarrow> 'a world" where
  "cachedWorld info = freshWorld\<lparr>awaCache := Some [InsertPlugs \<mapsto> Token info]\<rparr>"

definition sampleItem :: DimItem where
  "sampleItem = \<lparr> DimItem.id = ''6917'', owner = ''vault'' \<rparr>"

section \<open>Steps of the broker\<close>

lemma useToken_fst: "fst (useToken action info cache w) = Inr (AwaAuthorizationResult.actionToken info)"
  by (simp add: useToken_def Let_def)

lemma useToken_snd:
  "snd (useToken action info cache w)
     = w\<lparr>awaCache := Some (cache(action \<mapsto> Token (info\<lparr>used := used info + 1\<rparr>))),
         idbAwaTokens := Some (cache(action \<mapsto> Token (info\<lparr>used := used info + 1\<rparr>)))\<rparr>"
  by (simp add: useToken_def Let_def)

lemma getAwaToken_valid_eq:
  assumes "loadedCache w action = Some (Token info)"
      and "tokenValid (parseDate e) (nowAtLookup e) info"
  shows "getAwaToken e account action storeId itm w
           = useToken action info (loadedCache w) (w\<lparr>awaCache := Some (loadedCache w)\<rparr>)"
  using assms by (simp add: getAwaToken_def Let_def)

lemma getAwaToken_unusable_eq:
  assumes "tokenUnusable (parseDate e) (nowAtLookup e) (loadedCache w action)"
  shows "getAwaToken e account action storeId itm w
           = requestNewToken e account action storeId itm (loadedCache w)
               (w\<lparr>awaCache := Some (loadedCache w)\<rparr>)"
  using assms
  by (simp add: getAwaToken_def Let_def tokenUnusable_def split: option.splits CacheEntry.splits)

lemma withUsed_simps:
  "AwaAuthorizationResult.actionToken (withUsed r n) = AwaAuthorizationResult.actionToken r"
  "developerNote (withUsed r n) = developerNote r"
  "used (withUsed r n) = n"
  "(withUsed r n)\<lparr>used := k\<rparr> = withUsed r k"
  by (simp_all add: withUsed_def)

lemma requestNewToken_Inl:
  assumes "requestAdvancedWriteActionToken e account action storeId itm = Inl err"
  shows "requestNewToken e account action storeId itm cache w
     = (Inl (DimError ''AWA.FailedToken'' None (Some err)),
        w\<lparr>notifications := notifications w @
              [\<lparr> type = Info, title = t_i18n e ''AWA.ConfirmTitle'',
                 body = t_i18n e ''AWA.ConfirmDescription'' \<rparr>],
          tokenRequests := tokenRequests w @ [(account, action, storeId, itm)]\<rparr>)"
  using assms by (simp add: requestNewToken_def Let_def)

lemma requestNewToken_invalid:
  assumes "requestAdvancedWriteActionToken e account action storeId itm = Inr (Some r)"
      and "\<not> tokenValid (parseDate e) (nowAfterRequest e) (withUsed r 0)"
  shows "requestNewToken e account action storeId itm cache w
     = (Inl (DimError ''AWA.FailedToken'' (Some (developerNote r)) None),
        w\<lparr>notifications := notifications w @
              [\<lparr> type = Info, title = t_i18n e ''AWA.ConfirmTitle'',
                 body = t_i18n e ''AWA.ConfirmDescription'' \<rparr>],
          tokenRequests := tokenRequests w @ [(account, action, storeId, itm)],
          awaCache := Some (cache(action \<mapsto> Token (withUsed r 0)))\<rparr>)"
  using assms
  by (simp add: requestNewToken_def Let_def spreadUsed_def failedTokenNote_def withUsed_simps)

lemma requestNewToken_valid:
  assumes "requestAdvancedWriteActionToken e account action storeId itm = Inr (Some r)"
      and "tokenValid (parseDate e) (nowAfterRequest e) (withUsed r 0)"
  shows "requestNewToken e account action storeId itm cache w
     = (Inr (AwaAuthorizationResult.actionToken r),
        w\<lparr>notifications := notifications w @
              [\<lparr> type = Info, title = t_i18n e ''AWA.ConfirmTitle'',
                 body = t_i18n e ''AWA.ConfirmDescription'' \<rparr>],
          tokenRequests := tokenRequests w @ [(account, action, storeId, itm)],
          awaCache := Some (cache(action \<mapsto> Token (withUsed r 1))),
          idbAwaTokens := Some (cache(action \<mapsto> Token (withUsed r 1)))\<rparr>)"
  using assms
  by (simp add: requestNewToken_def Let_def spreadUsed_def useToken_def withUsed_simps)

lemma requestNewToken_missing:
  assumes "requestAdvancedWriteActionToken e account action storeId itm = Inr None"
  shows "requestNewToken e account action storeId itm cache w
     = (Inl (DimError ''AWA.FailedToken'' None None),
        w\<lparr>notifications := notifications w @
              [\<lparr> type = Info, title = t_i18n e ''AWA.ConfirmTitle'',
                 body = t_i18n e ''AWA.ConfirmDescription'' \<rparr>],
          tokenRequests := tokenRequests w @ [(account, action, storeId, itm)],
          awaCache := Some (cache(action \<mapsto> UsedOnly 0))\<rparr>)"
  using assms
  by (simp add: requestNewToken_def Let_def spreadUsed_def failedTokenNote_def)

lemmas sample_simps = sampleResult_def sampleEnv_def freshWorld_def cachedWorld_def sampleItem_def
  loadedCache_def tokenUnusable_def tokenValid_def falsyString_def withUsed_def spreadUsed_def

section \<open>Properties of the validity check\<close>

lemma falsyString_iff: "falsyString v \<longleftrightarrow> v = None \<or> v = Some []"
  by (cases v) (simp_all add: falsyString_def)

lemma expiry_clause_iff:
  "(falsyString v \<or> (case v of None \<Rightarrow> False | Some s \<Rightarrow> dateAfter parse s now))
     \<longleftrightarrow> (v = None \<or> v = Some [] \<or> (\<exists>s t. v = Some s \<and> parse s = Some t \<and> now < t))"
  by (cases v) (auto simp: falsyString_def dateAfter_def split: option.splits)

text \<open>
  Claim C1. The validity check is true exactly when the record has no expiry (the
  field is absent or the empty string) or its expiry parses to a time strictly after
  the current time, and its quota is 0 or its used count is at most the quota, and the
  user selection is Approved. In particular a record without expiry, with quota 0 and
  selection Approved is valid whatever its used count.
\<close>

theorem tokenValid_iff:
  "(tokenValid parse now info \<longleftrightarrow>
      (validUntil info = None \<or> validUntil info = Some []
         \<or> (\<exists>s t. validUntil info = Some s \<and> parse s = Some t \<and> now < t))
      \<and> (maximumNumberOfUses info = 0 \<or> used info \<le> maximumNumberOfUses info)
      \<and> userSelection info = Approved)
   \<and> (validUntil info = None \<and> maximumNumberOfUses info = 0 \<and> userSelection info = Approved
        \<longrightarrow> (\<forall>u. tokenValid parse now (info\<lparr>used := u\<rparr>)))"
proof (intro conjI impI allI)
  show "tokenValid parse now info \<longleftrightarrow>
      (validUntil info = None \<or> validUntil info = Some []
         \<or> (\<exists>s t. validUntil info = Some s \<and> parse s = Some t \<and> now < t))
      \<and> (maximumNumberOfUses info = 0 \<or> used info \<le> maximumNumberOfUses info)
      \<and> userSelection info = Approved"
    unfolding tokenValid_def expiry_clause_iff by simp
next
  fix u
  assume "validUntil info = None \<and> maximumNumberOfUses info = 0 \<and> userSelection info = Approved"
  then show "tokenValid parse now (info\<lparr>used := u\<rparr>)"
    by (simp add: tokenValid_def falsyString_def)
qed

theorem tokenValid_iff_witness:
  "tokenValid (\<lambda>s. None) 1000
     \<lparr> userSelection = Approved, developerNote = ''ok'', AwaAuthorizationResult.actionToken = ''tok'',
       maximumNumberOfUses = 0, validUntil = None, used = 41 \<rparr>
   \<and> tokenValid (\<lambda>s. if s = ''later'' then Some 2000 else None) 1000
     \<lparr> userSelection = Approved, developerNote = ''ok'', AwaAuthorizationResult.actionToken = ''tok'',
       maximumNumberOfUses = 3, validUntil = Some ''later'', used = 2 \<rparr>
   \<and> \<not> tokenValid (\<lambda>s. if s = ''later'' then Some 2000 else None) 2000
     \<lparr> userSelection = Approved, developerNote = ''ok'', AwaAuthorizationResult.actionToken = ''tok'',
       maximumNumberOfUses = 3, validUntil = Some ''later'', used = 2 \<rparr>"
proof -
  let ?p = "\<lambda>s. if s = ''later'' then Some (2000::int) else None"
  let ?a = "\<lparr> userSelection = Approved, developerNote = ''ok'', AwaAuthorizationResult.actionToken = ''tok'',
       maximumNumberOfUses = 0, validUntil = None, used = 0 \<rparr>"
  let ?b = "\<lparr> userSelection = Approved, developerNote = ''ok'', AwaAuthorizationResult.actionToken = ''tok'',
       maximumNumberOfUses = 3, validUntil = Some ''later'', used = 2 \<rparr>"
  have "tokenValid (\<lambda>s. None) 1000 (?a\<lparr>used := 41\<rparr>)"
    using tokenValid_iff [of "\<lambda>s. None" 1000 ?a] by simp
  moreover have "tokenValid ?p 1000 ?b"
    using tokenValid_iff [of ?p 1000 ?b] by simp
  moreover have "\<not> tokenValid ?p 2000 ?b"
    using tokenValid_iff [of ?p 2000 ?b] by simp
  ultimately show ?thesis by simp
qed

text \<open>
  Claim C2. A record with a nonzero quota whose used count has reached the quota
  should be refused. The check compares with \<open>\<le>\<close>, so at used = quota it still
  answers true: with a cached record of quota 1 that has been handed out once,
  \<open>getAwaToken\<close> returns the same token a second time and asks the service for nothing.
\<close>

theorem tokenValid_at_quota:
  "tokenValid (\<lambda>s. None) 0 (withUsed (sampleResult Approved 1) 1)
   \<and> fst (getAwaToken (sampleEnv (Inr (Some (sampleResult Approved 1))) (Inl (Thrown ''x'')) (Inl (Thrown ''y'')))
            \<lparr> originalPlatformType = 3 \<rparr> InsertPlugs ''char1'' None
            (cachedWorld (withUsed (sampleResult Approved 1) 1) :: unit world)) = Inr ''tok''
   \<and> tokenRequests (snd (getAwaToken (sampleEnv (Inr (Some (sampleResult Approved 1))) (Inl (Thrown ''x'')) (Inl (Thrown ''y'')))
            \<lparr> originalPlatformType = 3 \<rparr> InsertPlugs ''char1'' None
            (cachedWorld (withUsed (sampleResult Approved 1) 1) :: unit world))) = []"
  by (simp add: sample_simps getAwaToken_def useToken_def Let_def)

section \<open>Properties of the loadout conversion\<close>

text \<open>
  Claim C6. A persisted loadout with N equipped and M unequipped items converts to
  exactly N + M items: the first N are the converted equipped items, marked equipped,
  in their order; the remaining M are the converted unequipped items, marked not
  equipped, in their order. The id, class type, name and parameters are carried over.
\<close>

theorem convertDimApiLoadoutToLoadout_items:
  "length (items (convertDimApiLoadoutToLoadout l))
     = length (DimApiLoadout.equipped l) + length (unequipped l)
   \<and> take (length (DimApiLoadout.equipped l)) (items (convertDimApiLoadoutToLoadout l))
     = map (\<lambda>i. convertDimApiLoadoutItemToLoadoutItem i True) (DimApiLoadout.equipped l)
   \<and> drop (length (DimApiLoadout.equipped l)) (items (convertDimApiLoadoutToLoadout l))
     = map (\<lambda>i. convertDimApiLoadoutItemToLoadoutItem i False) (unequipped l)
   \<and> (\<forall>k < length (DimApiLoadout.equipped l).
        LoadoutItem.equipped (items (convertDimApiLoadoutToLoadout l) ! k)
        \<and> items (convertDimApiLoadoutToLoadout l) ! k
          = convertDimApiLoadoutItemToLoadoutItem (DimApiLoadout.equipped l ! k) True)
   \<and> (\<forall>k < length (unequipped l).
        \<not> LoadoutItem.equipped
            (items (convertDimApiLoadoutToLoadout l) ! (length (DimApiLoadout.equipped l) + k))
        \<and> items (convertDimApiLoadoutToLoadout l) ! (length (DimApiLoadout.equipped l) + k)
          = convertDimApiLoadoutItemToLoadoutItem (unequipped l ! k) False)
   \<and> Loadout.id (convertDimApiLoadoutToLoadout l) = DimApiLoadout.id l
   \<and> Loadout.classType (convertDimApiLoadoutToLoadout l) = DimApiLoadout.classType l
   \<and> Loadout.name (convertDimApiLoadoutToLoadout l) = DimApiLoadout.name l
   \<and> Loadout.parameters (convertDimApiLoadoutToLoadout l) = DimApiLoadout.parameters l"
  by (simp add: convertDimApiLoadoutToLoadout_def nth_append
      convertDimApiLoadoutItemToLoadoutItem_def)

theorem convertDimApiLoadoutToLoadout_items_witness:
  "(1::nat) < length [\<lparr> DimApiLoadoutItem.id = Some ''6917'', hash = 11, amount = Some 1 \<rparr>,
                      \<lparr> DimApiLoadoutItem.id = None, hash = 12, amount = None \<rparr>]
   \<and> items (convertDimApiLoadoutToLoadout
        \<lparr> DimApiLoadout.id = ''a'', classType = 1, name = ''pvp'', clearSpace = None,
          equipped = [\<lparr> DimApiLoadoutItem.id = Some ''6917'', hash = 11, amount = Some 1 \<rparr>,
                      \<lparr> DimApiLoadoutItem.id = None, hash = 12, amount = None \<rparr>],
          unequipped = [\<lparr> DimApiLoadoutItem.id = None, hash = 13, amount = Some 5 \<rparr>],
          parameters = (None :: unit option) \<rparr>)
     = [\<lparr> LoadoutItem.id = ''6917'', hash = 11, amount = 1, equipped = True \<rparr>,
        \<lparr> LoadoutItem.id = ''0'', hash = 12, amount = 1, equipped = True \<rparr>,
        \<lparr> LoadoutItem.id = ''0'', hash = 13, amount = 5, equipped = False \<rparr>]"
proof -
  let ?e = "[\<lparr> DimApiLoadoutItem.id = Some ''6917'', hash = 11, amount = Some 1 \<rparr>,
             \<lparr> DimApiLoadoutItem.id = None, hash = 12, amount = None \<rparr>]"
  let ?u = "[\<lparr> DimApiLoadoutItem.id = None, hash = 13, amount = Some 5 \<rparr>]"
  let ?l = "\<lparr> DimApiLoadout.id = ''a'', classType = 1, name = ''pvp'', clearSpace = None,
             equipped = ?e, unequipped = ?u, parameters = (None :: unit option) \<rparr>"
  have c: "convertDimApiLoadoutItemToLoadoutItem
             \<lparr> DimApiLoadoutItem.id = Some ''6917'', hash = 11, amount = Some 1 \<rparr> True
           = \<lparr> LoadoutItem.id = ''6917'', hash = 11, amount = 1, equipped = True \<rparr>"
          "convertDimApiLoadoutItemToLoadoutItem
             \<lparr> DimApiLoadoutItem.id = None, hash = 12, amount = None \<rparr> True
           = \<lparr> LoadoutItem.id = ''0'', hash = 12, amount = 1, equipped = True \<rparr>"
          "convertDimApiLoadoutItemToLoadoutItem
             \<lparr> DimApiLoadoutItem.id = None, hash = 13, amount = Some 5 \<rparr> False
           = \<lparr> LoadoutItem.id = ''0'', hash = 13, amount = 5, equipped = False \<rparr>"
    by (simp_all add: convertDimApiLoadoutItemToLoadoutItem_def)
  note all = convertDimApiLoadoutToLoadout_items [of ?l]
  have t: "take (length ?e) (items (convertDimApiLoadoutToLoadout ?l))
             = map (\<lambda>i. convertDimApiLoadoutItemToLoadoutItem i True) ?e"
    using all [THEN conjunct2, THEN conjunct1] by (simp only: DimApiLoadout.select_convs)
  have d: "drop (length ?e) (items (convertDimApiLoadoutToLoadout ?l))
             = map (\<lambda>i. convertDimApiLoadoutItemToLoadoutItem i False) ?u"
    using all [THEN conjunct2, THEN conjunct2, THEN conjunct1]
    by (simp only: DimApiLoadout.select_convs)
  have "items (convertDimApiLoadoutToLoadout ?l)
          = take (length ?e) (items (convertDimApiLoadoutToLoadout ?l))
            @ drop (length ?e) (items (convertDimApiLoadoutToLoadout ?l))"
    by (simp only: append_take_drop_id)
  then have "items (convertDimApiLoadoutToLoadout ?l)
          = map (\<lambda>i. convertDimApiLoadoutItemToLoadoutItem i True) ?e
            @ map (\<lambda>i. convertDimApiLoadoutItemToLoadoutItem i False) ?u"
    by (simp only: t d)
  then show ?thesis
    by (simp add: c)
qed

text \<open>
  Claim C7, as stated: the converted id is the sentinel "0" when the persisted id is
  absent and the persisted id otherwise. An id that is present but empty is replaced
  by the sentinel too, so the result is not the persisted id there.
\<close>

theorem convertDimApiLoadoutItemToLoadoutItem_empty_id:
  "LoadoutItem.id (convertDimApiLoadoutItemToLoadoutItem
      \<lparr> DimApiLoadoutItem.id = Some [], hash = 7, amount = Some 2 \<rparr> True) \<noteq> []"
  by (simp add: convertDimApiLoadoutItemToLoadoutItem_def)

text \<open>
  Claim C7, amended. For every persisted item and flag the conversion returns the item
  whose id is "0" when the persisted id is absent or empty and the persisted id
  otherwise, whose amount is 1 when the persisted amount is absent or 0 and the
  persisted amount otherwise, whose hash is the persisted hash and whose equipped field
  is the flag. The function is total and its result depends on its arguments only.
\<close>

theorem convertDimApiLoadoutItemToLoadoutItem_fields:
  "(DimApiLoadoutItem.id itm = None \<or> DimApiLoadoutItem.id itm = Some []
      \<longrightarrow> LoadoutItem.id (convertDimApiLoadoutItemToLoadoutItem itm eq) = ''0'')
   \<and> (\<forall>s. DimApiLoadoutItem.id itm = Some s \<and> s \<noteq> []
      \<longrightarrow> LoadoutItem.id (convertDimApiLoadoutItemToLoadoutItem itm eq) = s)
   \<and> (DimApiLoadoutItem.amount itm = None \<or> DimApiLoadoutItem.amount itm = Some 0
      \<longrightarrow> LoadoutItem.amount (convertDimApiLoadoutItemToLoadoutItem itm eq) = 1)
   \<and> (\<forall>a. DimApiLoadoutItem.amount itm = Some a \<and> a \<noteq> 0
      \<longrightarrow> LoadoutItem.amount (convertDimApiLoadoutItemToLoadoutItem itm eq) = a)
   \<and> LoadoutItem.hash (convertDimApiLoadoutItemToLoadoutItem itm eq) = DimApiLoadoutItem.hash itm
   \<and> LoadoutItem.equipped (convertDimApiLoadoutItemToLoadoutItem itm eq) = eq"
  by (auto simp: convertDimApiLoadoutItemToLoadoutItem_def)

theorem convertDimApiLoadoutItemToLoadoutItem_fields_witness:
  "LoadoutItem.id (convertDimApiLoadoutItemToLoadoutItem
      \<lparr> DimApiLoadoutItem.id = Some [], hash = 7, amount = Some 0 \<rparr> False) = ''0''
   \<and> LoadoutItem.amount (convertDimApiLoadoutItemToLoadoutItem
      \<lparr> DimApiLoadoutItem.id = Some [], hash = 7, amount = Some 0 \<rparr> False) = 1
   \<and> LoadoutItem.id (convertDimApiLoadoutItemToLoadoutItem
      \<lparr> DimApiLoadoutItem.id = Some ''6917'', hash = 7, amount = Some 3 \<rparr> True) = ''6917''
   \<and> LoadoutItem.amount (convertDimApiLoadoutItemToLoadoutItem
      \<lparr> DimApiLoadoutItem.id = Some ''6917'', hash = 7, amount = Some 3 \<rparr> True) = 3"
  using convertDimApiLoadoutItemToLoadoutItem_fields
          [of "\<lparr> DimApiLoadoutItem.id = Some [], hash = 7, amount = Some 0 \<rparr>" False]
        convertDimApiLoadoutItemToLoadoutItem_fields
          [of "\<lparr> DimApiLoadoutItem.id = Some ''6917'', hash = 7, amount = Some 3 \<rparr>" True]
  by simp

section \<open>Properties of the broker\<close>

text \<open>
  Claim C3. When the cache holds no usable record for the action (none, or one that
  fails the validity check) and the remote request answers with a record that is
  valid, \<open>getAwaToken\<close> returns that record's token, shows exactly one informational
  notification, sends one token request, and leaves the record with used count 1 in
  the cache and in the durable store.
\<close>

theorem getAwaToken_fresh:
  assumes "tokenUnusable (parseDate e) (nowAtLookup e) (loadedCache w action)"
      and "requestAdvancedWriteActionToken e account action storeId itm = Inr (Some r)"
      and "tokenValid (parseDate e) (nowAfterRequest e) (withUsed r 0)"
  shows "fst (getAwaToken e account action storeId itm w) = Inr (AwaAuthorizationResult.actionToken r)
     \<and> notifications (snd (getAwaToken e account action storeId itm w))
         = notifications w @ [\<lparr> type = Info, title = t_i18n e ''AWA.ConfirmTitle'',
                                 body = t_i18n e ''AWA.ConfirmDescription'' \<rparr>]
     \<and> tokenRequests (snd (getAwaToken e account action storeId itm w))
         = tokenRequests w @ [(account, action, storeId, itm)]
     \<and> awaCache (snd (getAwaToken e account action storeId itm w))
         = Some ((loadedCache w)(action \<mapsto> Token (withUsed r 1)))
     \<and> idbAwaTokens (snd (getAwaToken e account action storeId itm w))
         = Some ((loadedCache w)(action \<mapsto> Token (withUsed r 1)))
     \<and> used (withUsed r 1) = 1"
  by (simp add: getAwaToken_unusable_eq [OF assms(1)] requestNewToken_valid [OF assms(2,3)]
        withUsed_simps)

theorem getAwaToken_fresh_witness:
  "fst (getAwaToken (sampleEnv (Inr (Some (sampleResult Approved 1))) (Inl (Thrown ''x'')) (Inl (Thrown ''y'')))
          \<lparr> originalPlatformType = 3 \<rparr> InsertPlugs ''char1'' None (freshWorld :: unit world))
     = Inr ''tok''
   \<and> idbAwaTokens (snd (getAwaToken (sampleEnv (Inr (Some (sampleResult Approved 1))) (Inl (Thrown ''x'')) (Inl (Thrown ''y'')))
          \<lparr> originalPlatformType = 3 \<rparr> InsertPlugs ''char1'' None (freshWorld :: unit world)))
     = Some [InsertPlugs \<mapsto> Token (withUsed (sampleResult Approved 1) 1)]"
proof -
  let ?e = "sampleEnv (Inr (Some (sampleResult Approved 1))) (Inl (Thrown ''x'')) (Inl (Thrown ''y''))"
  have l: "loadedCache (freshWorld :: unit world) = Map.empty"
    by (simp add: loadedCache_def freshWorld_def)
  have 1: "tokenUnusable (parseDate ?e) (nowAtLookup ?e) (loadedCache (freshWorld :: unit world) InsertPlugs)"
    by (simp add: l tokenUnusable_def)
  have 2: "requestAdvancedWriteActionToken ?e \<lparr> originalPlatformType = 3 \<rparr> InsertPlugs ''char1'' None
             = Inr (Some (sampleResult Approved 1))"
    by (simp add: sampleEnv_def)
  have 3: "tokenValid (parseDate ?e) (nowAfterRequest ?e) (withUsed (sampleResult Approved 1) 0)"
    by (simp add: tokenValid_def falsyString_def withUsed_def sampleResult_def)
  show ?thesis
    using getAwaToken_fresh [OF 1 2 3] by (simp add: l sampleResult_def)
qed


text \<open>
  Claim C4. When the cache holds a valid record for the action, \<open>getAwaToken\<close> returns
  that record's token, shows no notification and sends no token request; the record's
  used count is incremented (from 0 to 1 for an unused record) and the updated cache is
  written to the durable store.
\<close>

theorem getAwaToken_cached:
  assumes "loadedCache w action = Some (Token info)"
      and "tokenValid (parseDate e) (nowAtLookup e) info"
  shows "fst (getAwaToken e account action storeId itm w) = Inr (AwaAuthorizationResult.actionToken info)
     \<and> notifications (snd (getAwaToken e account action storeId itm w)) = notifications w
     \<and> tokenRequests (snd (getAwaToken e account action storeId itm w)) = tokenRequests w
     \<and> awaCache (snd (getAwaToken e account action storeId itm w))
         = Some ((loadedCache w)(action \<mapsto> Token (info\<lparr>used := used info + 1\<rparr>)))
     \<and> idbAwaTokens (snd (getAwaToken e account action storeId itm w))
         = Some ((loadedCache w)(action \<mapsto> Token (info\<lparr>used := used info + 1\<rparr>)))
     \<and> (used info = 0 \<longrightarrow> used (info\<lparr>used := used info + 1\<rparr>) = 1)"
  by (simp add: getAwaToken_valid_eq [OF assms] useToken_fst useToken_snd)

theorem getAwaToken_cached_witness:
  "fst (getAwaToken (sampleEnv (Inl (Thrown ''x'')) (Inl (Thrown ''x'')) (Inl (Thrown ''y'')))
          \<lparr> originalPlatformType = 3 \<rparr> InsertPlugs ''char1'' None
          (cachedWorld (withUsed (sampleResult Approved 5) 0) :: unit world)) = Inr ''tok''
   \<and> notifications (snd (getAwaToken (sampleEnv (Inl (Thrown ''x'')) (Inl (Thrown ''x'')) (Inl (Thrown ''y'')))
          \<lparr> originalPlatformType = 3 \<rparr> InsertPlugs ''char1'' None
          (cachedWorld (withUsed (sampleResult Approved 5) 0) :: unit world))) = []
   \<and> idbAwaTokens (snd (getAwaToken (sampleEnv (Inl (Thrown ''x'')) (Inl (Thrown ''x'')) (Inl (Thrown ''y'')))
          \<lparr> originalPlatformType = 3 \<rparr> InsertPlugs ''char1'' None
          (cachedWorld (withUsed (sampleResult Approved 5) 0) :: unit world)))
       = Some [InsertPlugs \<mapsto> Token (withUsed (sampleResult Approved 5) 1)]"
proof -
  let ?e = "sampleEnv (Inl (Thrown ''x'')) (Inl (Thrown ''x'')) (Inl (Thrown ''y''))"
  let ?w = "cachedWorld (withUsed (sampleResult Approved 5) 0) :: unit world"
  have l: "loadedCache ?w = [InsertPlugs \<mapsto> Token (withUsed (sampleResult Approved 5) 0)]"
    by (simp add: loadedCache_def cachedWorld_def)
  have 1: "loadedCache ?w InsertPlugs = Some (Token (withUsed (sampleResult Approved 5) 0))"
    by (simp add: l)
  have 2: "tokenValid (parseDate ?e) (nowAtLookup ?e) (withUsed (sampleResult Approved 5) 0)"
    by (simp add: sample_simps)
  show ?thesis
    using getAwaToken_cached [OF 1 2, of "\<lparr> originalPlatformType = 3 \<rparr>" "''char1''" None]
    by (simp add: l sample_simps)
qed

text \<open>
  When the broker throws: exactly when a fresh token is needed and the request is
  rejected, resolves without a response, or resolves with a record that fails the
  validity check; and what it throws in each of the three cases.
\<close>

lemma getAwaToken_throws_iff:
  "(\<exists>err. fst (getAwaToken e account action storeId itm w) = Inl err) \<longleftrightarrow>
      tokenUnusable (parseDate e) (nowAtLookup e) (loadedCache w action)
      \<and> (case requestAdvancedWriteActionToken e account action storeId itm of
            Inl err \<Rightarrow> True
          | Inr None \<Rightarrow> True
          | Inr (Some r) \<Rightarrow> \<not> tokenValid (parseDate e) (nowAfterRequest e) (withUsed r 0))"
proof (cases "tokenUnusable (parseDate e) (nowAtLookup e) (loadedCache w action)")
  case True
  show ?thesis
  proof (cases "requestAdvancedWriteActionToken e account action storeId itm")
    case (Inl err)
    with True show ?thesis
      by (simp add: getAwaToken_unusable_eq requestNewToken_Inl)
  next
    case (Inr response)
    show ?thesis
    proof (cases response)
      case None
      with True Inr show ?thesis
        by (simp add: getAwaToken_unusable_eq requestNewToken_missing)
    next
      case (Some r)
      with True Inr show ?thesis
        by (cases "tokenValid (parseDate e) (nowAfterRequest e) (withUsed r 0)")
           (simp_all add: getAwaToken_unusable_eq requestNewToken_invalid requestNewToken_valid)
    qed
  qed
next
  case False
  then obtain info where "loadedCache w action = Some (Token info)"
      and "tokenValid (parseDate e) (nowAtLookup e) info"
    by (auto simp: tokenUnusable_def split: option.splits CacheEntry.splits)
  with False show ?thesis
    by (simp add: getAwaToken_valid_eq useToken_fst)
qed

lemma getAwaToken_throws_rejected:
  assumes "tokenUnusable (parseDate e) (nowAtLookup e) (loadedCache w action)"
      and "requestAdvancedWriteActionToken e account action storeId itm = Inl err"
  shows "fst (getAwaToken e account action storeId itm w)
           = Inl (DimError ''AWA.FailedToken'' None (Some err))"
  using assms by (simp add: getAwaToken_unusable_eq requestNewToken_Inl)

lemma getAwaToken_throws_invalid:
  assumes "tokenUnusable (parseDate e) (nowAtLookup e) (loadedCache w action)"
      and "requestAdvancedWriteActionToken e account action storeId itm = Inr (Some r)"
      and "\<not> tokenValid (parseDate e) (nowAfterRequest e) (withUsed r 0)"
  shows "fst (getAwaToken e account action storeId itm w)
           = Inl (DimError ''AWA.FailedToken'' (Some (developerNote r)) None)"
  using assms by (simp add: getAwaToken_unusable_eq requestNewToken_invalid)

lemma getAwaToken_throws_missing:
  assumes "tokenUnusable (parseDate e) (nowAtLookup e) (loadedCache w action)"
      and "requestAdvancedWriteActionToken e account action storeId itm = Inr None"
  shows "fst (getAwaToken e account action storeId itm w)
           = Inl (DimError ''AWA.FailedToken'' None None)"
  using assms by (simp add: getAwaToken_unusable_eq requestNewToken_missing)

text \<open>
  Claim C5. When the fresh record is still invalid, the second argument of the error
  should be the response's developer note when a response exists and the string
  "no response" otherwise. The spread has built an object before the test, so the test
  \<^verbatim>\<open>info ?\<close> never fails: with an empty cache and a token request that resolves without
  a response, \<open>getAwaToken\<close> throws the domain error with no second argument at all, not
  with "no response", and the cache keeps the object \<^verbatim>\<open>{ used: 0 }\<close>.
\<close>

theorem getAwaToken_no_response:
  "fst (getAwaToken (sampleEnv (Inr None) (Inl (Thrown ''x'')) (Inl (Thrown ''y'')))
          \<lparr> originalPlatformType = 3 \<rparr> InsertPlugs ''char1'' None (freshWorld :: unit world))
     = Inl (DimError ''AWA.FailedToken'' None None)
   \<and> fst (getAwaToken (sampleEnv (Inr None) (Inl (Thrown ''x'')) (Inl (Thrown ''y'')))
          \<lparr> originalPlatformType = 3 \<rparr> InsertPlugs ''char1'' None (freshWorld :: unit world))
     \<noteq> Inl (DimError ''AWA.FailedToken'' (Some ''no response'') None)
   \<and> awaCache (snd (getAwaToken (sampleEnv (Inr None) (Inl (Thrown ''x'')) (Inl (Thrown ''y'')))
          \<lparr> originalPlatformType = 3 \<rparr> InsertPlugs ''char1'' None (freshWorld :: unit world)))
     = Some [InsertPlugs \<mapsto> UsedOnly 0]"
  by (simp add: getAwaToken_def requestNewToken_def failedTokenNote_def Let_def sample_simps)

text \<open>
  Claim C10. Whenever \<open>getAwaToken\<close> throws, the durable store is what it was before
  the call; when the fresh record is invalid the call throws while the in-memory cache
  already holds that record, with used count 0.
\<close>

theorem getAwaToken_throw_keeps_store:
  "(\<forall>err. fst (getAwaToken e account action storeId itm w) = Inl err
       \<longrightarrow> idbAwaTokens (snd (getAwaToken e account action storeId itm w)) = idbAwaTokens w)
   \<and> (\<forall>r. tokenUnusable (parseDate e) (nowAtLookup e) (loadedCache w action)
        \<and> requestAdvancedWriteActionToken e account action storeId itm = Inr (Some r)
        \<and> \<not> tokenValid (parseDate e) (nowAfterRequest e) (withUsed r 0)
       \<longrightarrow> (\<exists>err. fst (getAwaToken e account action storeId itm w) = Inl err)
         \<and> awaCache (snd (getAwaToken e account action storeId itm w))
             = Some ((loadedCache w)(action \<mapsto> Token (withUsed r 0))))"
proof (intro conjI allI impI)
  fix err
  assume t: "fst (getAwaToken e account action storeId itm w) = Inl err"
  show "idbAwaTokens (snd (getAwaToken e account action storeId itm w)) = idbAwaTokens w"
  proof (cases "tokenUnusable (parseDate e) (nowAtLookup e) (loadedCache w action)")
    case True
    show ?thesis
    proof (cases "requestAdvancedWriteActionToken e account action storeId itm")
      case (Inl x)
      with True show ?thesis
        by (simp add: getAwaToken_unusable_eq requestNewToken_Inl)
    next
      case (Inr response)
      show ?thesis
      proof (cases response)
        case None
        with True Inr show ?thesis
          by (simp add: getAwaToken_unusable_eq requestNewToken_missing)
      next
        case (Some r)
        with True Inr t have "\<not> tokenValid (parseDate e) (nowAfterRequest e) (withUsed r 0)"
          by (auto simp: getAwaToken_unusable_eq requestNewToken_valid)
        with True Inr Some show ?thesis
          by (simp add: getAwaToken_unusable_eq requestNewToken_invalid)
      qed
    qed
  next
    case False
    then obtain info where "loadedCache w action = Some (Token info)"
        and "tokenValid (parseDate e) (nowAtLookup e) info"
      by (auto simp: tokenUnusable_def split: option.splits CacheEntry.splits)
    with t show ?thesis
      by (simp add: getAwaToken_valid_eq useToken_fst)
  qed
next
  fix r
  assume a: "tokenUnusable (parseDate e) (nowAtLookup e) (loadedCache w action)
        \<and> requestAdvancedWriteActionToken e account action storeId itm = Inr (Some r)
        \<and> \<not> tokenValid (parseDate e) (nowAfterRequest e) (withUsed r 0)"
  then show "\<exists>err. fst (getAwaToken e account action storeId itm w) = Inl err"
    by (simp add: getAwaToken_unusable_eq requestNewToken_invalid)
  from a show "awaCache (snd (getAwaToken e account action storeId itm w))
             = Some ((loadedCache w)(action \<mapsto> Token (withUsed r 0)))"
    by (simp add: getAwaToken_unusable_eq requestNewToken_invalid)
qed


theorem getAwaToken_throw_keeps_store_witness:
  "idbAwaTokens (snd (getAwaToken (sampleEnv (Inr (Some (sampleResult Rejected 1))) (Inl (Thrown ''x'')) (Inl (Thrown ''y'')))
          \<lparr> originalPlatformType = 3 \<rparr> InsertPlugs ''char1'' None (freshWorld :: unit world))) = None
   \<and> awaCache (snd (getAwaToken (sampleEnv (Inr (Some (sampleResult Rejected 1))) (Inl (Thrown ''x'')) (Inl (Thrown ''y'')))
          \<lparr> originalPlatformType = 3 \<rparr> InsertPlugs ''char1'' None (freshWorld :: unit world)))
       = Some [InsertPlugs \<mapsto> Token (withUsed (sampleResult Rejected 1) 0)]"
proof -
  let ?a = "\<lparr> originalPlatformType = 3 \<rparr>"
  let ?e2 = "sampleEnv (Inr (Some (sampleResult Rejected 1))) (Inl (Thrown ''x'')) (Inl (Thrown ''y''))"
  let ?g = "getAwaToken ?e2 ?a InsertPlugs ''char1'' None (freshWorld :: unit world)"
  have u2: "tokenUnusable (parseDate ?e2) (nowAtLookup ?e2) (loadedCache (freshWorld :: unit world) InsertPlugs)"
    by (simp add: sample_simps)
  have r2: "requestAdvancedWriteActionToken ?e2 ?a InsertPlugs ''char1'' None = Inr (Some (sampleResult Rejected 1))"
    by (simp add: sampleEnv_def)
  have inv: "\<not> tokenValid (parseDate ?e2) (nowAfterRequest ?e2) (withUsed (sampleResult Rejected 1) 0)"
    by (simp add: sample_simps)
  have l: "loadedCache (freshWorld :: unit world) = Map.empty"
    by (simp add: loadedCache_def freshWorld_def)
  note k = getAwaToken_throw_keeps_store [of ?e2 ?a InsertPlugs "''char1''" None freshWorld]
  from k u2 r2 inv have c: "(\<exists>err. fst ?g = Inl err)
      \<and> awaCache (snd ?g) = Some ((loadedCache (freshWorld :: unit world))(InsertPlugs \<mapsto> Token (withUsed (sampleResult Rejected 1) 0)))"
    by blast
  with k have "idbAwaTokens (snd ?g) = idbAwaTokens (freshWorld :: unit world)"
    by blast
  moreover have "idbAwaTokens (freshWorld :: unit world) = None"
    by (simp add: freshWorld_def)
  ultimately show ?thesis
    using c by (simp add: l)
qed


section \<open>Properties of the plug insertion workflow\<close>

lemma requestNewToken_frame:
  "dispatched (snd (requestNewToken e account action storeId x cache w)) = dispatched w
   \<and> errorLogs (snd (requestNewToken e account action storeId x cache w)) = errorLogs w
   \<and> plugRequests (snd (requestNewToken e account action storeId x cache w)) = plugRequests w
   \<and> filter (\<lambda>n. type n = Error) (notifications (snd (requestNewToken e account action storeId x cache w)))
       = filter (\<lambda>n. type n = Error) (notifications w)"
  by (simp add: requestNewToken_def useToken_def Let_def spreadUsed_def
        split: sum.splits option.splits)

lemma getAwaToken_frame:
  "dispatched (snd (getAwaToken e account action storeId x w)) = dispatched w
   \<and> errorLogs (snd (getAwaToken e account action storeId x w)) = errorLogs w
   \<and> plugRequests (snd (getAwaToken e account action storeId x w)) = plugRequests w
   \<and> filter (\<lambda>n. type n = Error) (notifications (snd (getAwaToken e account action storeId x w)))
       = filter (\<lambda>n. type n = Error) (notifications w)"
  by (simp add: getAwaToken_def requestNewToken_frame useToken_def Let_def
        split: option.splits CacheEntry.splits)

lemma insertPlugTry_token_throws:
  assumes "fst (getAwaToken e account InsertPlugs storeId (Some x) w) = Inl err"
  shows "insertPlugTry e x socket plugHash account storeId w
           = (Inl err, snd (getAwaToken e account InsertPlugs storeId (Some x) w))"
  using assms
  by (cases "getAwaToken e account InsertPlugs storeId (Some x) w")
     (simp add: insertPlugTry_def)

lemma insertPlugTry_plug_throws:
  assumes "fst (getAwaToken e account InsertPlugs storeId (Some x) w) = Inr token"
      and "insertSocketPlug e
             \<lparr> InsertPlugRequest.actionToken = token, itemInstanceId = DimItem.id x,
               plug = \<lparr> DestinyInsertPlugsRequestEntry.socketIndex = DimSocket.socketIndex socket,
                        socketArrayType = Default, plugItemHash = plugHash \<rparr>,
               characterId = storeId, membershipType = originalPlatformType account \<rparr> = Inl err"
  shows "insertPlugTry e x socket plugHash account storeId w
           = (Inl err,
              (snd (getAwaToken e account InsertPlugs storeId (Some x) w))
                \<lparr>plugRequests := plugRequests (snd (getAwaToken e account InsertPlugs storeId (Some x) w)) @
                   [\<lparr> InsertPlugRequest.actionToken = token, itemInstanceId = DimItem.id x,
                      plug = \<lparr> DestinyInsertPlugsRequestEntry.socketIndex = DimSocket.socketIndex socket,
                               socketArrayType = Default, plugItemHash = plugHash \<rparr>,
                      characterId = storeId, membershipType = originalPlatformType account \<rparr>]\<rparr>)"
  using assms
  by (cases "getAwaToken e account InsertPlugs storeId (Some x) w")
     (simp add: insertPlugTry_def Let_def)

lemma insertPlug_caught:
  assumes "insertPlugTry e x socket plugHash (currentAccountSelector e)
             (if owner x = ''vault'' then DimStore.id (currentStoreSelector e) else owner x) w
           = (Inl err, w1)"
  shows "insertPlug e x socket plugHash w
           = (Inr (),
              w1\<lparr>errorLogs := errorLogs w1 @ [(''AWA'', ''Couldn't insert plug'', x, err)],
                 notifications := notifications w1 @
                   [\<lparr> type = Error, title = t_i18n e ''AWA.Error'',
                      body = message (dimErrorMessage e) err \<rparr>]\<rparr>)"
  using assms by (simp add: insertPlug_def Let_def)

text \<open>
  Claim C8. When the token acquisition or the remote plug insertion throws, \<open>insertPlug\<close>
  completes without throwing: the error is logged, exactly one error notification is
  added, whose body is the message of what was thrown, and nothing is dispatched.
\<close>

theorem insertPlug_failure:
  assumes acc: "account = currentAccountSelector e"
      and sid: "storeId = (if owner x = ''vault'' then DimStore.id (currentStoreSelector e) else owner x)"
      and thr: "fst (getAwaToken e account InsertPlugs storeId (Some x) w) = Inl err
         \<or> (\<exists>token. fst (getAwaToken e account InsertPlugs storeId (Some x) w) = Inr token
              \<and> insertSocketPlug e
                   \<lparr> InsertPlugRequest.actionToken = token, itemInstanceId = DimItem.id x,
                     plug = \<lparr> DestinyInsertPlugsRequestEntry.socketIndex = DimSocket.socketIndex socket,
                              socketArrayType = Default, plugItemHash = plugHash \<rparr>,
                     characterId = storeId, membershipType = originalPlatformType account \<rparr> = Inl err)"
  shows "fst (insertPlug e x socket plugHash w) = Inr ()
     \<and> errorLogs (snd (insertPlug e x socket plugHash w))
         = errorLogs w @ [(''AWA'', ''Couldn't insert plug'', x, err)]
     \<and> notifications (snd (insertPlug e x socket plugHash w))
         = notifications (snd (getAwaToken e account InsertPlugs storeId (Some x) w)) @
             [\<lparr> type = Error, title = t_i18n e ''AWA.Error'', body = message (dimErrorMessage e) err \<rparr>]
     \<and> filter (\<lambda>n. type n = Error) (notifications (snd (insertPlug e x socket plugHash w)))
         = filter (\<lambda>n. type n = Error) (notifications w) @
             [\<lparr> type = Error, title = t_i18n e ''AWA.Error'', body = message (dimErrorMessage e) err \<rparr>]
     \<and> dispatched (snd (insertPlug e x socket plugHash w)) = dispatched w"
proof -
  let ?g = "getAwaToken e account InsertPlugs storeId (Some x) w"
  note fr = getAwaToken_frame [of e account InsertPlugs storeId "Some x" w]
  from thr obtain w1 where
      t: "insertPlugTry e x socket plugHash account storeId w = (Inl err, w1)"
      and n: "notifications w1 = notifications (snd ?g)"
      and l: "errorLogs w1 = errorLogs (snd ?g)"
      and d: "dispatched w1 = dispatched (snd ?g)"
  proof
    assume "fst ?g = Inl err"
    from insertPlugTry_token_throws [OF this] that show thesis by simp
  next
    assume "\<exists>token. fst ?g = Inr token
              \<and> insertSocketPlug e
                   \<lparr> InsertPlugRequest.actionToken = token, itemInstanceId = DimItem.id x,
                     plug = \<lparr> DestinyInsertPlugsRequestEntry.socketIndex = DimSocket.socketIndex socket,
                              socketArrayType = Default, plugItemHash = plugHash \<rparr>,
                     characterId = storeId, membershipType = originalPlatformType account \<rparr> = Inl err"
    then obtain token where a: "fst ?g = Inr token"
       and b: "insertSocketPlug e
                   \<lparr> InsertPlugRequest.actionToken = token, itemInstanceId = DimItem.id x,
                     plug = \<lparr> DestinyInsertPlugsRequestEntry.socketIndex = DimSocket.socketIndex socket,
                              socketArrayType = Default, plugItemHash = plugHash \<rparr>,
                     characterId = storeId, membershipType = originalPlatformType account \<rparr> = Inl err"
      by blast
    from insertPlugTry_plug_throws [OF a b] that show thesis by simp
  qed
  from t have "insertPlug e x socket plugHash w
           = (Inr (),
              w1\<lparr>errorLogs := errorLogs w1 @ [(''AWA'', ''Couldn't insert plug'', x, err)],
                 notifications := notifications w1 @
                   [\<lparr> type = Error, title = t_i18n e ''AWA.Error'',
                      body = message (dimErrorMessage e) err \<rparr>]\<rparr>)"
    unfolding acc sid by (rule insertPlug_caught)
  then show ?thesis
    using fr by (simp add: n l d)
qed

theorem insertPlug_failure_witness:
  "fst (insertPlug (sampleEnv (Inl (Thrown ''offline'')) (Inl (Thrown ''boom'')) (Inl (Thrown ''y'')))
          sampleItem \<lparr> DimSocket.socketIndex = 2 \<rparr> 99 freshWorld) = Inr ()
   \<and> dispatched (snd (insertPlug (sampleEnv (Inl (Thrown ''offline'')) (Inl (Thrown ''boom'')) (Inl (Thrown ''y'')))
          sampleItem \<lparr> DimSocket.socketIndex = 2 \<rparr> 99 freshWorld)) = []
   \<and> filter (\<lambda>n. type n = Error)
        (notifications (snd (insertPlug (sampleEnv (Inl (Thrown ''offline'')) (Inl (Thrown ''boom'')) (Inl (Thrown ''y'')))
          sampleItem \<lparr> DimSocket.socketIndex = 2 \<rparr> 99 freshWorld)))
       = [\<lparr> type = Error, title = ''AWA.Error'', body = ''AWA.FailedToken'' \<rparr>]
   \<and> fst (insertPlug (sampleEnv (Inr (Some (sampleResult Approved 1))) (Inl (Thrown ''boom'')) (Inl (Thrown ''y'')))
          sampleItem \<lparr> DimSocket.socketIndex = 2 \<rparr> 99 freshWorld) = Inr ()
   \<and> dispatched (snd (insertPlug (sampleEnv (Inr (Some (sampleResult Approved 1))) (Inl (Thrown ''boom'')) (Inl (Thrown ''y'')))
          sampleItem \<lparr> DimSocket.socketIndex = 2 \<rparr> 99 freshWorld)) = []
   \<and> filter (\<lambda>n. type n = Error)
        (notifications (snd (insertPlug (sampleEnv (Inr (Some (sampleResult Approved 1))) (Inl (Thrown ''boom'')) (Inl (Thrown ''y'')))
          sampleItem \<lparr> DimSocket.socketIndex = 2 \<rparr> 99 freshWorld)))
       = [\<lparr> type = Error, title = ''AWA.Error'', body = ''boom'' \<rparr>]"
proof -
  let ?e1 = "sampleEnv (Inl (Thrown ''offline'')) (Inl (Thrown ''boom'')) (Inl (Thrown ''y''))"
  let ?e2 = "sampleEnv (Inr (Some (sampleResult Approved 1))) (Inl (Thrown ''boom'')) (Inl (Thrown ''y''))"
  let ?a = "\<lparr> originalPlatformType = 3 \<rparr>"
  let ?w = "freshWorld :: ((nat, unit) DestinyItemChangeResponse_scheme, unit, unit) AwaItemChanged world"
  have g1: "fst (getAwaToken ?e1 ?a InsertPlugs ''char1'' (Some sampleItem) ?w)
              = Inl (DimError ''AWA.FailedToken'' None (Some (Thrown ''offline'')))"
    by (simp add: getAwaToken_def requestNewToken_def Let_def sample_simps)
  have g2: "fst (getAwaToken ?e2 ?a InsertPlugs ''char1'' (Some sampleItem) ?w) = Inr ''tok''"
    by (simp add: getAwaToken_def requestNewToken_def useToken_def Let_def sample_simps)
  have a1: "?a = currentAccountSelector ?e1" and a2: "?a = currentAccountSelector ?e2"
    by (simp_all add: sampleEnv_def)
  have s1: "''char1'' = (if owner sampleItem = ''vault'' then DimStore.id (currentStoreSelector ?e1)
                          else owner sampleItem)"
   and s2: "''char1'' = (if owner sampleItem = ''vault'' then DimStore.id (currentStoreSelector ?e2)
                          else owner sampleItem)"
    by (simp_all add: sampleEnv_def sampleItem_def)
  have p2: "insertSocketPlug ?e2
              \<lparr> InsertPlugRequest.actionToken = ''tok'', itemInstanceId = DimItem.id sampleItem,
                plug = \<lparr> DestinyInsertPlugsRequestEntry.socketIndex
                           = DimSocket.socketIndex \<lparr> DimSocket.socketIndex = 2 \<rparr>,
                         socketArrayType = Default, plugItemHash = 99 \<rparr>,
                characterId = ''char1'', membershipType = originalPlatformType ?a \<rparr>
            = Inl (Thrown ''boom'')"
    by (simp add: sampleEnv_def)
  have f: "dispatched ?w = []" "notifications ?w = []"
    by (simp_all add: freshWorld_def)
  note k1 = insertPlug_failure [OF a1 s1 disjI1 [OF g1], of "\<lparr> DimSocket.socketIndex = 2 \<rparr>" 99]
  have h2: "fst (getAwaToken ?e2 ?a InsertPlugs ''char1'' (Some sampleItem) ?w) = Inl (Thrown ''boom'')
      \<or> (\<exists>token. fst (getAwaToken ?e2 ?a InsertPlugs ''char1'' (Some sampleItem) ?w) = Inr token
           \<and> insertSocketPlug ?e2
                \<lparr> InsertPlugRequest.actionToken = token, itemInstanceId = DimItem.id sampleItem,
                  plug = \<lparr> DestinyInsertPlugsRequestEntry.socketIndex
                             = DimSocket.socketIndex \<lparr> DimSocket.socketIndex = 2 \<rparr>,
                           socketArrayType = Default, plugItemHash = 99 \<rparr>,
                  characterId = ''char1'', membershipType = originalPlatformType ?a \<rparr>
               = Inl (Thrown ''boom''))"
    using g2 p2 by blast
  note k2 = insertPlug_failure [OF a2 s2 h2]
  have "fst (insertPlug ?e1 sampleItem \<lparr> DimSocket.socketIndex = 2 \<rparr> 99 ?w) = Inr ()"
    by (rule k1 [THEN conjunct1])
  moreover have "dispatched (snd (insertPlug ?e1 sampleItem \<lparr> DimSocket.socketIndex = 2 \<rparr> 99 ?w)) = []"
    using k1 [THEN conjunct2, THEN conjunct2, THEN conjunct2, THEN conjunct2] by (simp only: f)
  moreover have "filter (\<lambda>n. type n = Error)
          (notifications (snd (insertPlug ?e1 sampleItem \<lparr> DimSocket.socketIndex = 2 \<rparr> 99 ?w)))
         = [\<lparr> type = Error, title = ''AWA.Error'', body = ''AWA.FailedToken'' \<rparr>]"
    using k1 [THEN conjunct2, THEN conjunct2, THEN conjunct2, THEN conjunct1]
    by (simp add: f sampleEnv_def)
  moreover have "fst (insertPlug ?e2 sampleItem \<lparr> DimSocket.socketIndex = 2 \<rparr> 99 ?w) = Inr ()"
    by (rule k2 [THEN conjunct1])
  moreover have "dispatched (snd (insertPlug ?e2 sampleItem \<lparr> DimSocket.socketIndex = 2 \<rparr> 99 ?w)) = []"
    using k2 [THEN conjunct2, THEN conjunct2, THEN conjunct2, THEN conjunct2] by (simp only: f)
  moreover have "filter (\<lambda>n. type n = Error)
          (notifications (snd (insertPlug ?e2 sampleItem \<lparr> DimSocket.socketIndex = 2 \<rparr> 99 ?w)))
         = [\<lparr> type = Error, title = ''AWA.Error'', body = ''boom'' \<rparr>]"
    using k2 [THEN conjunct2, THEN conjunct2, THEN conjunct2, THEN conjunct1]
    by (simp add: f sampleEnv_def)
  ultimately show ?thesis by blast
qed

text \<open>
  Claim C9. \<open>refreshItemAfterAWA\<close> dispatches exactly one action, whether or not the
  item can be fetched again. After a successful fetch the dispatched change response is
  the given one with its item field replaced by the fetched record and nothing else
  changed; after a failed fetch the error is logged and the given change response is
  dispatched as it is.
\<close>

theorem refreshItemAfterAWA_dispatch:
  "fst (refreshItemAfterAWA e x chg w) = Inr ()
   \<and> (\<forall>info. getSingleItem e (DimItem.id x) (currentAccountSelector e) = Inr info \<longrightarrow>
         dispatched (snd (refreshItemAfterAWA e x chg w))
           = dispatched w @ [\<lparr> changes = chg\<lparr>item := info\<rparr>, defs = d2ManifestSelector e,
                                buckets = bucketsSelector e \<rparr>]
         \<and> DestinyItemChangeResponse.more (chg\<lparr>item := info\<rparr>) = DestinyItemChangeResponse.more chg
         \<and> item (chg\<lparr>item := info\<rparr>) = info
         \<and> errorLogs (snd (refreshItemAfterAWA e x chg w)) = errorLogs w)
   \<and> (\<forall>err. getSingleItem e (DimItem.id x) (currentAccountSelector e) = Inl err \<longrightarrow>
         dispatched (snd (refreshItemAfterAWA e x chg w))
           = dispatched w @ [\<lparr> changes = chg, defs = d2ManifestSelector e,
                                buckets = bucketsSelector e \<rparr>]
         \<and> errorLogs (snd (refreshItemAfterAWA e x chg w))
           = errorLogs w @ [(''AWA'', ''Unable to refresh item, falling back on AWA response'', x, err)])
   \<and> length (dispatched (snd (refreshItemAfterAWA e x chg w))) = length (dispatched w) + 1"
  by (simp add: refreshItemAfterAWA_def Let_def split: sum.splits)


theorem refreshItemAfterAWA_dispatch_witness:
  "dispatched (snd (refreshItemAfterAWA
       (sampleEnv (Inl (Thrown ''x'')) (Inl (Thrown ''boom'')) (Inr 42))
       sampleItem \<lparr> item = 7 \<rparr> freshWorld))
     = [\<lparr> changes = \<lparr> item = 42 \<rparr>, defs = (), buckets = () \<rparr>]
   \<and> dispatched (snd (refreshItemAfterAWA
       (sampleEnv (Inl (Thrown ''x'')) (Inl (Thrown ''boom'')) (Inl (Thrown ''gone'')))
       sampleItem \<lparr> item = 7 \<rparr> freshWorld))
     = [\<lparr> changes = \<lparr> item = 7 \<rparr>, defs = (), buckets = () \<rparr>]
   \<and> errorLogs (snd (refreshItemAfterAWA
       (sampleEnv (Inl (Thrown ''x'')) (Inl (Thrown ''boom'')) (Inl (Thrown ''gone'')))
       sampleItem \<lparr> item = 7 \<rparr> freshWorld))
     = [(''AWA'', ''Unable to refresh item, falling back on AWA response'', sampleItem, Thrown ''gone'')]"
proof -
  let ?e1 = "sampleEnv (Inl (Thrown ''x'')) (Inl (Thrown ''boom'')) (Inr 42)"
  let ?e2 = "sampleEnv (Inl (Thrown ''x'')) (Inl (Thrown ''boom'')) (Inl (Thrown ''gone''))"
  let ?w = "freshWorld :: ((nat, unit) DestinyItemChangeResponse_scheme, unit, unit) AwaItemChanged world"
  have i1: "getSingleItem ?e1 (DimItem.id sampleItem) (currentAccountSelector ?e1) = Inr 42"
   and i2: "getSingleItem ?e2 (DimItem.id sampleItem) (currentAccountSelector ?e2) = Inl (Thrown ''gone'')"
    by (simp_all add: sampleEnv_def)
  have f: "dispatched ?w = []" "errorLogs ?w = []"
    by (simp_all add: freshWorld_def)
  have d: "d2ManifestSelector ?e1 = ()" "bucketsSelector ?e1 = ()"
    by simp_all
  from refreshItemAfterAWA_dispatch [of ?e1 sampleItem "\<lparr> item = 7 \<rparr>" ?w] i1
  have "dispatched (snd (refreshItemAfterAWA ?e1 sampleItem \<lparr> item = 7 \<rparr> ?w))
          = [\<lparr> changes = \<lparr> item = 42 \<rparr>, defs = (), buckets = () \<rparr>]"
    by (simp add: f)
  moreover
  from refreshItemAfterAWA_dispatch [of ?e2 sampleItem "\<lparr> item = 7 \<rparr>" ?w] i2
  have "dispatched (snd (refreshItemAfterAWA ?e2 sampleItem \<lparr> item = 7 \<rparr> ?w))
          = [\<lparr> changes = \<lparr> item = 7 \<rparr>, defs = (), buckets = () \<rparr>]
      \<and> errorLogs (snd (refreshItemAfterAWA ?e2 sampleItem \<lparr> item = 7 \<rparr> ?w))
          = [(''AWA'', ''Unable to refresh item, falling back on AWA response'', sampleItem, Thrown ''gone'')]"
    by (simp add: f)
  ultimately show ?thesis by simp
qed

end
